theory Spec2Isabelle
  imports Main "HOL-Library.Word" "HOL-Library.Product_Lexorder"
begin

section \<open>Constants of \<open>spo_controller.py\<close>\<close>

definition CHUNK_SIZE :: nat where
  "CHUNK_SIZE = 10485760"

definition MAX_BACKUPS :: nat where
  "MAX_BACKUPS = 4"

section \<open>The chunked transfer engine: \<open>_manage_file_chunks\<close>\<close>

text \<open>
  The local file is the list of its bytes; \<open>os.stat(file_path).st_size\<close> is the length of
  that list (the file is not modified between \<open>os.stat\<close> and \<open>open\<close>).
  \<open>file_data.read(CHUNK_SIZE)\<close> returns the next \<open>CHUNK_SIZE\<close> bytes, or fewer at the end of
  the file, and advances the position: \<open>take\<close> and \<open>drop\<close> on the unread rest.

  The remote side is a script of status codes: \<open>resp n\<close> is the status code of the
  response to the \<open>n\<close>-th PUT of the transfer (counted from 0). Every \<open>requests.put\<close> is
  taken to return a response; an exception of the transport (a timeout, a refused
  connection) is outside the model.

  Python's \<open>int(file_size / CHUNK_SIZE)\<close> divides as floating point and truncates; for a
  file size below \<open>2 ^ 53\<close> the result is the integer quotient, which is what the model
  computes (\<open>div\<close>); the rounding of larger quotients is not modelled.
\<close>

type_synonym byte = "8 word"

text \<open>One \<open>requests.put\<close>: the two headers and the body. The header
  \<open>Content-Range: bytes {start}-{start + bytes_read - 1}/{file_size}\<close> is kept as its three
  numbers; the second one is \<open>-1\<close> for an empty read at offset 0, hence \<open>int\<close>.\<close>

record put_request =
  content_length :: nat
  range_start :: int
  range_end :: int
  range_total :: int
  body :: "byte list"

definition acceptable_codes :: "int list" where
  "acceptable_codes = [200, 201, 202]"

text \<open>The body of the \<open>for chunk_num in range(chunks)\<close> loop. The first argument after the
  script and the file size counts the iterations still to run; \<open>chunk_num\<close>, the unread
  rest of the file and \<open>start\<close> are the loop's variables. The result is the value
  returned (\<open>False\<close> from the early \<open>return\<close>, \<open>True\<close> after the loop) and the PUT requests
  issued, in order.\<close>

fun send_chunks ::
  "(nat \<Rightarrow> int) \<Rightarrow> nat \<Rightarrow> nat \<Rightarrow> nat \<Rightarrow> byte list \<Rightarrow> int \<Rightarrow> bool \<times> put_request list" where
  "send_chunks resp file_size 0 chunk_num file_data start = (True, [])"
| "send_chunks resp file_size (Suc n) chunk_num file_data start =
     (let chunk = take CHUNK_SIZE file_data;
          bytes_read = length chunk;
          req = \<lparr>content_length = bytes_read,
                 range_start = start,
                 range_end = start + int bytes_read - 1,
                 range_total = int file_size,
                 body = chunk\<rparr>
      in if resp chunk_num \<notin> set acceptable_codes then (False, [req])
         else (case send_chunks resp file_size n (Suc chunk_num)
                      (drop CHUNK_SIZE file_data) (start + int bytes_read) of
                 (ok, reqs) \<Rightarrow> (ok, req # reqs)))"

definition manage_file_chunks :: "(nat \<Rightarrow> int) \<Rightarrow> byte list \<Rightarrow> bool \<times> put_request list" where
  "manage_file_chunks resp file_bytes =
     (let file_size = length file_bytes;
          chunks = file_size div CHUNK_SIZE + 1
      in send_chunks resp file_size chunks 0 file_bytes 0)"

text \<open>The request of the transfer's \<open>i\<close>-th iteration, in closed form.\<close>

definition chunk_request :: "byte list \<Rightarrow> nat \<Rightarrow> put_request" where
  "chunk_request file_bytes i =
     (let chunk = take CHUNK_SIZE (drop (i * CHUNK_SIZE) file_bytes)
      in \<lparr>content_length = length chunk,
          range_start = int (min (i * CHUNK_SIZE) (length file_bytes)),
          range_end = int (min (i * CHUNK_SIZE) (length file_bytes)) + int (length chunk) - 1,
          range_total = int (length file_bytes),
          body = chunk\<rparr>)"

text \<open>The byte range of a request, as the pair of its inclusive bounds.\<close>

definition byte_range :: "put_request \<Rightarrow> int \<times> int" where
  "byte_range r = (range_start r, range_end r)"

section \<open>The controller: \<open>SpoController\<close>\<close>

text \<open>
  Python's \<open>str\<close> is modelled by \<open>string\<close>. A dictionary whose values are only ever
  formatted into a string (the MSAL token) is an association list read with \<open>map_of\<close>; the
  empty dictionary, which Python treats as false, is the empty list.

  What the program raises is a value of \<open>py_error\<close>; a function that can raise returns
  \<open>py_error + 'a\<close>.
\<close>

datatype py_error = KeyError | ValueError | JSONDecodeError

type_synonym token_dict = "(string \<times> string) list"

text \<open>The constructor arguments of \<open>msal.ConfidentialClientApplication\<close>: client id,
  authority, client credential.\<close>

type_synonym msal_client = "string \<times> string \<times> string"

record spo_controller =
  authority :: string
  endpoint :: string
  scope :: "string list"
  client_id :: string
  secret :: string
  graph_token :: token_dict
  client :: "msal_client option"

text \<open>\<open>__init__\<close> reads five environment variables, each with the default \<open>""\<close>. The
  environment is a map from variable names to values.\<close>

definition environ_get :: "(string \<rightharpoonup> string) \<Rightarrow> string \<Rightarrow> string \<Rightarrow> string" where
  "environ_get env k d = (case env k of None \<Rightarrow> d | Some v \<Rightarrow> v)"

definition init_controller :: "(string \<rightharpoonup> string) \<Rightarrow> spo_controller" where
  "init_controller env =
     \<lparr>authority = environ_get env ''SPOBKP_AUTHORITY'' '''',
      endpoint = environ_get env ''SPOBKP_ENDPOINT'' '''',
      scope = [environ_get env ''SPOBKP_SCOPE'' ''''],
      client_id = environ_get env ''SPOBKP_CLIENTID'' '''',
      secret = environ_get env ''SPOBKP_SECRET'' '''',
      graph_token = [],
      client = None\<rparr>"

subsection \<open>\<open>validate_info\<close>\<close>

text \<open>
  \<open>dir(self)\<close> is the sorted list of the \<^emph>\<open>names\<close> of the object's attributes: the seven
  attributes set by \<open>__init__\<close>, the thirteen methods of the class, and the names every
  Python object inherits from \<open>object\<close> (listed here as of Python 3.10; later versions add
  names of the same form). It does not depend on the values of the attributes.
\<close>

definition dir_self :: "string list" where
  "dir_self =
     [''__class__'', ''__delattr__'', ''__dict__'', ''__dir__'', ''__doc__'', ''__eq__'',
      ''__format__'', ''__ge__'', ''__getattribute__'', ''__gt__'', ''__hash__'',
      ''__init__'', ''__init_subclass__'', ''__le__'', ''__lt__'', ''__module__'',
      ''__ne__'', ''__new__'', ''__reduce__'', ''__reduce_ex__'', ''__repr__'',
      ''__setattr__'', ''__sizeof__'', ''__str__'', ''__subclasshook__'', ''__weakref__'',
      ''_delete_file'', ''_get_upload_url'', ''_manage_file_chunks'', ''authority'',
      ''check_dir'', ''check_token'', ''cleanup_files'', ''client'', ''client_id'',
      ''connect_graph'', ''create_dir'', ''endpoint'', ''get_dir_id'', ''graph_token'',
      ''initialize_client'', ''query_graph'', ''scope'', ''secret'', ''upload_file'',
      ''validate_info'']"

text \<open>The loop \<open>for prop in dir(self): if not prop: return False\<close>; \<open>not prop\<close> on a
  string is true for the empty string only.\<close>

fun validate_props :: "string list \<Rightarrow> bool" where
  "validate_props [] = True"
| "validate_props (prop # props) = (if prop = [] then False else validate_props props)"

definition validate_info :: "spo_controller \<Rightarrow> bool" where
  "validate_info self = validate_props dir_self"

text \<open>The check the specification asks for, in its words: authority, scope, client id and
  secret are all present and non-empty. It is not part of the program.\<close>

definition required_settings_present :: "spo_controller \<Rightarrow> bool" where
  "required_settings_present self \<longleftrightarrow>
     authority self \<noteq> [] \<and> scope self \<noteq> [] \<and> [] \<notin> set (scope self)
     \<and> client_id self \<noteq> [] \<and> secret self \<noteq> []"

subsection \<open>What the program sends\<close>

text \<open>Every call that leaves the process is recorded as an event, in order: the three
  calls into MSAL, and the HTTP requests with their URL and, where the program sets one,
  their \<open>Authorization\<close> header.\<close>

datatype event =
    MsalClient string string string
  | AcquireTokenSilent "string list"
  | AcquireTokenForClient "string list"
  | HttpGet string string
  | HttpPost string string
  | HttpPut string put_request
  | HttpDelete string string

subsection \<open>\<open>connect_graph\<close> and \<open>check_token\<close>\<close>

text \<open>The two MSAL calls return a dictionary or \<open>None\<close>; their results are parameters.
  The constructor of the MSAL client is taken to return an object (which is true in a
  Python condition), so the guard \<open>if not self.client\<close> never fires.\<close>

definition initialize_client :: "spo_controller \<Rightarrow> event list \<times> spo_controller" where
  "initialize_client self =
     ([MsalClient (client_id self) (authority self) (secret self)],
      self\<lparr>client := Some (client_id self, authority self, secret self)\<rparr>)"

text \<open>The \<open>else\<close> branch of \<open>connect_graph\<close>: the result of
  \<open>acquire_token_for_client\<close> is stored unless it is \<open>None\<close> or carries the key \<open>error\<close>.\<close>

definition store_new_token :: "token_dict option \<Rightarrow> spo_controller \<Rightarrow> spo_controller" where
  "store_new_token for_client self =
     (case for_client of
        None \<Rightarrow> self
      | Some result \<Rightarrow>
          if map_of result ''error'' \<noteq> None then self
          else self\<lparr>graph_token := result\<rparr>)"

definition connect_graph ::
  "token_dict option \<Rightarrow> token_dict option \<Rightarrow> spo_controller \<Rightarrow> event list \<times> spo_controller" where
  "connect_graph silent for_client self0 =
     (case initialize_client self0 of (ev, self) \<Rightarrow>
        if client self = None then (ev, self)
        else (case silent of
                Some (kv # kvs) \<Rightarrow>
                  (ev @ [AcquireTokenSilent (scope self)], self\<lparr>graph_token := kv # kvs\<rparr>)
              | _ \<Rightarrow>
                  (ev @ [AcquireTokenSilent (scope self), AcquireTokenForClient (scope self)],
                   store_new_token for_client self)))"

definition check_token :: "spo_controller \<Rightarrow> bool" where
  "check_token self = (map_of (graph_token self) ''access_token'' \<noteq> None)"

subsection \<open>The HTTP operations\<close>

text \<open>
  A response is its status code, its text and the result of \<open>resp.json()\<close>: \<open>None\<close> when
  the body is not JSON (the call raises), otherwise the object, of which the program reads
  four keys. The values of those keys have the types the remote API documents: strings, and
  for \<open>value\<close> a list of items with string fields. An item of a folder listing is read
  through the keys \<open>id\<close>, \<open>name\<close> and \<open>createdDateTime\<close>; an absent key is \<open>None\<close>.
\<close>

record item =
  item_id :: "string option"
  item_name :: "string option"
  createdDateTime :: "string option"

record graph_json =
  j_error :: "string option"
  j_id :: "string option"
  j_uploadUrl :: "string option"
  j_value :: "item list option"

record http_response =
  status_code :: int
  resp_text :: string
  resp_json :: "graph_json option"

text \<open>\<open>d.get(key, "")\<close> on an optional string field.\<close>

definition get_str :: "string option \<Rightarrow> string" where
  "get_str v = (case v of None \<Rightarrow> [] | Some s \<Rightarrow> s)"

text \<open>The header value \<open>f"Bearer {self.graph_token['access_token']}"\<close>; the subscript raises
  \<open>KeyError\<close> when the key is absent.\<close>

definition bearer :: "spo_controller \<Rightarrow> py_error + string" where
  "bearer self =
     (case map_of (graph_token self) ''access_token'' of
        None \<Rightarrow> Inl KeyError
      | Some t \<Rightarrow> Inr (''Bearer '' @ t))"

text \<open>A function that sends requests returns the events it caused and then either what it
  raised or its result.\<close>

definition query_graph ::
  "spo_controller \<Rightarrow> string \<Rightarrow> http_response \<Rightarrow> event list \<times> (py_error + graph_json)" where
  "query_graph self endpoint0 resp =
     (let endpoint1 = (if endpoint0 = [] then endpoint self else endpoint0)
      in case bearer self of
           Inl e \<Rightarrow> ([], Inl e)
         | Inr auth \<Rightarrow>
             ([HttpGet endpoint1 auth],
              if status_code resp \<noteq> 200
              then Inr \<lparr>j_error = Some (resp_text resp), j_id = None,
                        j_uploadUrl = None, j_value = None\<rparr>
              else (case resp_json resp of
                      None \<Rightarrow> Inl JSONDecodeError
                    | Some j \<Rightarrow> Inr j)))"

definition get_dir_id ::
  "spo_controller \<Rightarrow> string \<Rightarrow> http_response \<Rightarrow> event list \<times> (py_error + string)" where
  "get_dir_id self directory resp =
     (case query_graph self directory resp of
        (ev, Inl e) \<Rightarrow> (ev, Inl e)
      | (ev, Inr full_response) \<Rightarrow> (ev, Inr (get_str (j_id full_response))))"

text \<open>\<open>s.split(sep, maxsplit=1)[0]\<close>: the part of \<open>s\<close> before the first occurrence of
  \<open>sep\<close>, all of \<open>s\<close> when there is none.\<close>

fun startswith :: "string \<Rightarrow> string \<Rightarrow> bool" where
  "startswith s [] = True"
| "startswith [] (p # ps) = False"
| "startswith (c # cs) (p # ps) = (c = p \<and> startswith cs ps)"

fun split_head :: "string \<Rightarrow> string \<Rightarrow> string" where
  "split_head sep [] = []"
| "split_head sep (c # cs) = (if startswith (c # cs) sep then [] else c # split_head sep cs)"

definition get_upload_url ::
  "spo_controller \<Rightarrow> string \<Rightarrow> string \<Rightarrow> http_response \<Rightarrow> event list \<times> (py_error + string)" where
  "get_upload_url self dir_id file_name resp =
     (let base_url = split_head ''/root:'' (endpoint self);
          endpoint1 = base_url @ ''/items/'' @ dir_id @ '':/'' @ file_name
                        @ '':/createUploadSession''
      in case bearer self of
           Inl e \<Rightarrow> ([], Inl e)
         | Inr auth \<Rightarrow>
             ([HttpPost endpoint1 auth],
              (case resp_json resp of
                 None \<Rightarrow> Inl JSONDecodeError
               | Some j \<Rightarrow> Inr (get_str (j_uploadUrl j)))))"

text \<open>In \<open>_get_upload_url\<close> the test \<open>if not resp.status_code in [200, 201]\<close> guards a log
  line only; the \<open>return\<close> after it is reached for every status, which is why the status
  code does not occur in the definition above.\<close>

definition upload_file ::
  "spo_controller \<Rightarrow> string \<Rightarrow> byte list \<Rightarrow> string \<Rightarrow> http_response \<Rightarrow> (nat \<Rightarrow> int)
     \<Rightarrow> event list \<times> (py_error + bool)" where
  "upload_file self dir_id file_bytes file_name session_resp put_status =
     (case get_upload_url self dir_id file_name session_resp of
        (ev, Inl e) \<Rightarrow> (ev, Inl e)
      | (ev, Inr upload_url) \<Rightarrow>
          if upload_url = [] then (ev, Inr False)
          else (case manage_file_chunks put_status file_bytes of
                  (ok, puts) \<Rightarrow> (ev @ map (HttpPut upload_url) puts, Inr ok)))"

definition delete_file ::
  "spo_controller \<Rightarrow> string \<Rightarrow> int \<Rightarrow> event list \<times> (py_error + bool)" where
  "delete_file self iid status =
     (let endpoint1 = split_head ''/root:'' (endpoint self) @ ''/items/'' @ iid
      in case bearer self of
           Inl e \<Rightarrow> ([], Inl e)
         | Inr auth \<Rightarrow> ([HttpDelete endpoint1 auth], Inr (status = 204)))"

section \<open>The retention manager: \<open>cleanup_files\<close>\<close>

text \<open>
  A \<open>datetime\<close> without time zone is the tuple of its year, month, day, hour, minute and
  second (the microsecond is 0 in every value the loop compares); Python orders such
  values chronologically, which is the lexicographic order of the tuples.
  The constructor \<open>datetime(year, month, day, 0, 0, 0)\<close> raises \<open>ValueError\<close> for a date
  that does not exist.
\<close>

type_synonym datetime = "nat \<times> nat \<times> nat \<times> nat \<times> nat \<times> nat"

definition is_leap :: "nat \<Rightarrow> bool" where
  "is_leap y \<longleftrightarrow> y mod 4 = 0 \<and> (y mod 100 \<noteq> 0 \<or> y mod 400 = 0)"

definition days_in_month :: "nat \<Rightarrow> nat \<Rightarrow> nat" where
  "days_in_month y m =
     (if m = 2 then (if is_leap y then 29 else 28)
      else if m = 4 \<or> m = 6 \<or> m = 9 \<or> m = 11 then 30 else 31)"

definition datetime_ctor ::
  "nat \<Rightarrow> nat \<Rightarrow> nat \<Rightarrow> nat \<Rightarrow> nat \<Rightarrow> nat \<Rightarrow> py_error + datetime" where
  "datetime_ctor y m d h mi s =
     (if 1 \<le> y \<and> y \<le> 9999 \<and> 1 \<le> m \<and> m \<le> 12 \<and> 1 \<le> d \<and> d \<le> days_in_month y m
         \<and> h < 24 \<and> mi < 60 \<and> s < 60
      then Inr (y, m, d, h, mi, s) else Inl ValueError)"

text \<open>The sentinel \<open>datetime(right_now.year + 1, right_now.month, right_now.day, 0, 0, 0)\<close>
  of each pass of the loop.\<close>

definition next_year :: "datetime \<Rightarrow> py_error + datetime" where
  "next_year right_now =
     (case right_now of (y, m, d, _) \<Rightarrow> datetime_ctor (y + 1) m d 0 0 0)"

text \<open>
  \<open>datetime.strptime(s, "%Y-%m-%dT%H:%M:%SZ")\<close> is library code; it is a parameter
  \<open>strptime\<close> of the model, \<open>None\<close> standing for the \<open>ValueError\<close> the loop catches.

  The inner \<open>for single_file in dir_content\<close> loop: the triple is \<open>oldest_timestamp\<close>,
  \<open>oldest_filename\<close>, \<open>oldest_id\<close>.
\<close>

fun scan_oldest ::
  "(string \<Rightarrow> datetime option) \<Rightarrow> item list \<Rightarrow> datetime \<times> string \<times> string
     \<Rightarrow> datetime \<times> string \<times> string" where
  "scan_oldest strptime [] acc = acc"
| "scan_oldest strptime (single_file # files) (oldest_timestamp, oldest_filename, oldest_id) =
     (case strptime (get_str (createdDateTime single_file)) of
        None \<Rightarrow> scan_oldest strptime files (oldest_timestamp, oldest_filename, oldest_id)
      | Some current_file_time \<Rightarrow>
          if current_file_time < oldest_timestamp
          then scan_oldest strptime files
                 (current_file_time, get_str (item_name single_file),
                  get_str (item_id single_file))
          else scan_oldest strptime files (oldest_timestamp, oldest_filename, oldest_id))"

text \<open>\<open>next((file for file in dir_content if file["id"] == oldest_id), {})\<close>: the subscript
  raises \<open>KeyError\<close> on an item without the key, if the search gets that far.\<close>

fun find_match :: "string \<Rightarrow> item list \<Rightarrow> py_error + item option" where
  "find_match oid [] = Inr None"
| "find_match oid (file # files) =
     (case item_id file of
        None \<Rightarrow> Inl KeyError
      | Some i \<Rightarrow> if i = oid then Inr (Some file) else find_match oid files)"

text \<open>
  The variables of \<open>cleanup_files\<close> that the \<open>while\<close> loop reads and writes, with two
  logs: \<open>calls\<close>, the arguments of the calls of \<open>_delete_file\<close> so far, and \<open>sent\<close>, the
  requests sent so far.
\<close>

record cleanup_state =
  dir_content :: "item list"
  oldest_filename :: string
  oldest_id :: string
  calls :: "string list"
  sent :: "event list"

text \<open>
  The loop \<open>while len(dir_content) > MAX_BACKUPS\<close> need not terminate, so the model runs it
  for at most a given number of passes: \<open>Exited\<close> when the condition became false or the
  \<open>break\<close> was taken, \<open>Raised\<close> when a pass raised, \<open>Running\<close> when the passes are used up
  and the condition still holds. \<open>del_status n\<close> is the status code of the response to the
  \<open>n\<close>-th DELETE (counted from 0).
\<close>

datatype loop_status = Exited | Raised py_error | Running

fun cleanup_loop ::
  "spo_controller \<Rightarrow> (string \<Rightarrow> datetime option) \<Rightarrow> datetime \<Rightarrow> (nat \<Rightarrow> int) \<Rightarrow> nat
     \<Rightarrow> cleanup_state \<Rightarrow> loop_status \<times> cleanup_state" where
  "cleanup_loop self strptime right_now del_status 0 st =
     (if length (dir_content st) > MAX_BACKUPS then (Running, st) else (Exited, st))"
| "cleanup_loop self strptime right_now del_status (Suc n) st =
     (if \<not> length (dir_content st) > MAX_BACKUPS then (Exited, st)
      else (case next_year right_now of
              Inl e \<Rightarrow> (Raised e, st)
            | Inr sentinel \<Rightarrow>
                (case scan_oldest strptime (dir_content st)
                        (sentinel, oldest_filename st, oldest_id st) of
                   (oldest_timestamp, name, oid) \<Rightarrow>
                     (case delete_file self oid (del_status (length (calls st))) of
                        (ev, deleted) \<Rightarrow>
                          (let st1 = st\<lparr>oldest_filename := name, oldest_id := oid,
                                          calls := calls st @ [oid], sent := sent st @ ev\<rparr>
                           in case deleted of
                                Inl e \<Rightarrow> (Raised e, st1)
                              | Inr False \<Rightarrow> (Exited, st1)
                              | Inr True \<Rightarrow>
                                  (case find_match oid (dir_content st1) of
                                     Inl e \<Rightarrow> (Raised e, st1)
                                   | Inr None \<Rightarrow>
                                       cleanup_loop self strptime right_now del_status n st1
                                   | Inr (Some match) \<Rightarrow>
                                       cleanup_loop self strptime right_now del_status n
                                         (st1\<lparr>dir_content :=
                                                 remove1 match (dir_content st1)\<rparr>)))))))"

text \<open>\<open>cleanup_files\<close>: the listing is the \<open>value\<close> of the answer to a GET of the endpoint,
  the empty list when the key is absent (as in the dictionary \<open>query_graph\<close> builds for an
  error), and the loop starts with \<open>oldest_filename = ""\<close> and \<open>oldest_id = ""\<close>.\<close>

definition cleanup_files ::
  "spo_controller \<Rightarrow> (string \<Rightarrow> datetime option) \<Rightarrow> datetime \<Rightarrow> http_response
     \<Rightarrow> (nat \<Rightarrow> int) \<Rightarrow> nat \<Rightarrow> loop_status \<times> cleanup_state" where
  "cleanup_files self strptime right_now listing del_status fuel =
     (case query_graph self (endpoint self) listing of
        (ev, Inl e) \<Rightarrow>
          (Raised e, \<lparr>dir_content = [], oldest_filename = [], oldest_id = [],
                      calls = [], sent = ev\<rparr>)
      | (ev, Inr j) \<Rightarrow>
          cleanup_loop self strptime right_now del_status fuel
            \<lparr>dir_content = (case j_value j of None \<Rightarrow> [] | Some v \<Rightarrow> v),
             oldest_filename = [], oldest_id = [], calls = [], sent = ev\<rparr>)"




section \<open>The pipeline: \<open>manage_spo\<close> of \<open>main.py\<close>\<close>

text \<open>\<open>s.rstrip(chars)\<close> removes from the end of \<open>s\<close> every character that occurs in
  \<open>chars\<close>, up to the last character that does not.\<close>

definition rstrip :: "string \<Rightarrow> string \<Rightarrow> string" where
  "rstrip chars s = rev (dropWhile (\<lambda>c. c \<in> set chars) (rev s))"


text \<open>
  Everything outside the process that one run of \<open>manage_spo\<close> meets: the results of the
  two MSAL calls, the responses to the directory lookup, to the creation of the upload
  session and to the folder listing, the status codes of the PUT and DELETE requests, the
  library's \<open>strptime\<close> and the clock.
\<close>

record world =
  w_silent :: "token_dict option"
  w_for_client :: "token_dict option"
  w_dir :: http_response
  w_session :: http_response
  w_put :: "nat \<Rightarrow> int"
  w_listing :: http_response
  w_delete :: "nat \<Rightarrow> int"
  w_strptime :: "string \<Rightarrow> datetime option"
  w_now :: datetime

text \<open>How a run ends: at one of the four early \<open>return\<close>s, after the cleanup (with the
  state in which the retention loop was left), or with an exception that nothing catches.\<close>

datatype outcome =
    EnvMissing | NoToken | NoDirId | UploadFailed
  | CleanedUp loop_status
  | Crashed py_error

definition manage_spo ::
  "(string \<rightharpoonup> string) \<Rightarrow> world \<Rightarrow> byte list \<Rightarrow> string \<Rightarrow> nat \<Rightarrow> event list \<times> outcome" where
  "manage_spo env w tarball tarball_name fuel =
     (let spo0 = init_controller env
      in if \<not> validate_info spo0 then ([], EnvMissing)
         else (case connect_graph (w_silent w) (w_for_client w) spo0 of
           (ev1, spo) \<Rightarrow>
             if \<not> check_token spo then (ev1, NoToken)
             else (case get_dir_id spo (rstrip '':/children/'' (endpoint spo)) (w_dir w) of
               (ev2, Inl e) \<Rightarrow> (ev1 @ ev2, Crashed e)
             | (ev2, Inr dir_id) \<Rightarrow>
                 if dir_id = [] then (ev1 @ ev2, NoDirId)
                 else (case upload_file spo dir_id tarball tarball_name (w_session w) (w_put w) of
                   (ev3, Inl e) \<Rightarrow> (ev1 @ ev2 @ ev3, Crashed e)
                 | (ev3, Inr upload_status) \<Rightarrow>
                     if upload_status
                     then (case cleanup_files spo (w_strptime w) (w_now w) (w_listing w)
                                  (w_delete w) fuel of
                             (status, st) \<Rightarrow> (ev1 @ ev2 @ ev3 @ sent st, CleanedUp status))
                     else (ev1 @ ev2 @ ev3, UploadFailed)))))"

section \<open>Concrete configurations, responses and listings\<close>

text \<open>The values at which the theorems below are evaluated.\<close>

definition ex_env :: "string \<rightharpoonup> string" where
  "ex_env = [''SPOBKP_AUTHORITY'' \<mapsto> ''https://login.microsoftonline.com/t1'',
             ''SPOBKP_ENDPOINT'' \<mapsto> ''https://graph.microsoft.com/v1.0/drives/d1/root:/archive:/children'',
             ''SPOBKP_SCOPE'' \<mapsto> ''https://graph.microsoft.com/.default'',
             ''SPOBKP_CLIENTID'' \<mapsto> ''app1'']"

definition ex_world :: world where
  "ex_world = \<lparr>w_silent = None,
     w_for_client = Some [(''error'', ''invalid_client'')],
     w_dir = \<lparr>status_code = 200, resp_text = [], resp_json = None\<rparr>,
     w_session = \<lparr>status_code = 200, resp_text = [], resp_json = None\<rparr>,
     w_put = (\<lambda>_. 200),
     w_listing = \<lparr>status_code = 200, resp_text = [], resp_json = None\<rparr>,
     w_delete = (\<lambda>_. 204),
     w_strptime = (\<lambda>_. None),
     w_now = (2026, 11, 4, 12, 0, 0)\<rparr>"

definition ex_spo :: spo_controller where
  "ex_spo = \<lparr>authority = ''https://login.microsoftonline.com/t1'',
             endpoint = ''https://graph.microsoft.com/v1.0/drives/d1/root:/archive:/children'',
             scope = [''https://graph.microsoft.com/.default''],
             client_id = ''app1'',
             secret = ''s3cret'',
             graph_token = [(''token_type'', ''Bearer''), (''access_token'', ''tok1'')],
             client = Some (''app1'', ''https://login.microsoftonline.com/t1'', ''s3cret'')\<rparr>"

definition ex_rejected_session :: http_response where
  "ex_rejected_session =
     \<lparr>status_code = 500, resp_text = ''(a JSON object)'',
      resp_json = Some \<lparr>j_error = None, j_id = None,
                        j_uploadUrl = Some ''https://up.example/s1'', j_value = None\<rparr>\<rparr>"

definition ex_gateway_error :: http_response where
  "ex_gateway_error =
     \<lparr>status_code = 503, resp_text = ''<html>Service Unavailable</html>'', resp_json = None\<rparr>"


text \<open>A \<open>strptime\<close> that knows the timestamps of the listings below, and the timestamp it
  gives an item.\<close>

definition ex_strptime :: "string \<Rightarrow> datetime option" where
  "ex_strptime = map_of
     [(''2026-01-05T10:00:00Z'', (2026, 1, 5, 10, 0, 0)),
      (''2026-02-05T10:00:00Z'', (2026, 2, 5, 10, 0, 0)),
      (''2026-03-05T10:00:00Z'', (2026, 3, 5, 10, 0, 0)),
      (''2026-04-05T10:00:00Z'', (2026, 4, 5, 10, 0, 0)),
      (''2026-05-05T10:00:00Z'', (2026, 5, 5, 10, 0, 0)),
      (''2030-01-01T00:00:00Z'', (2030, 1, 1, 0, 0, 0))]"



definition mk_item :: "string \<Rightarrow> string \<Rightarrow> item" where
  "mk_item i c = \<lparr>item_id = Some i, item_name = Some (i @ ''.zip''), createdDateTime = Some c\<rparr>"

text \<open>The answer to the GET of the folder that lists the given items.\<close>

definition ex_listing :: "item list \<Rightarrow> http_response" where
  "ex_listing files =
     \<lparr>status_code = 200, resp_text = ''(a JSON object)'',
      resp_json = Some \<lparr>j_error = None, j_id = None, j_uploadUrl = None,
                        j_value = Some files\<rparr>\<rparr>"

text \<open>Six backups; \<open>d\<close> is the oldest, \<open>b\<close> and \<open>e\<close> share the second oldest timestamp.\<close>

definition ex_six :: "item list" where
  "ex_six = [mk_item ''a'' ''2026-03-05T10:00:00Z'',
             mk_item ''b'' ''2026-02-05T10:00:00Z'',
             mk_item ''c'' ''2026-05-05T10:00:00Z'',
             mk_item ''d'' ''2026-01-05T10:00:00Z'',
             mk_item ''e'' ''2026-02-05T10:00:00Z'',
             mk_item ''f'' ''2026-04-05T10:00:00Z'']"




section \<open>Facts about the chunk loop\<close>

lemma CHUNK_SIZE_pos: "0 < CHUNK_SIZE"
  by (simp add: CHUNK_SIZE_def)

lemma drop_chunks: "drop CHUNK_SIZE (drop (k * CHUNK_SIZE) xs) = drop (Suc k * CHUNK_SIZE) xs"
  by (simp add: add.commute)

lemma min_advance: "min a l + min (l - a) c = min (c + a) (l::nat)"
  by arith

lemma start_advance:
  "int (min (k * CHUNK_SIZE) (length xs))
     + int (length (take CHUNK_SIZE (drop (k * CHUNK_SIZE) xs)))
   = int (min (Suc k * CHUNK_SIZE) (length xs))"
proof -
  have "min (k * CHUNK_SIZE) (length xs)
          + length (take CHUNK_SIZE (drop (k * CHUNK_SIZE) xs))
        = min (Suc k * CHUNK_SIZE) (length xs)"
    using min_advance [of "k * CHUNK_SIZE" "length xs" CHUNK_SIZE]
    by (simp add: min.commute)
  then show ?thesis
    by (metis of_nat_add)
qed

lemma send_chunks_accepted:
  "\<forall>i < n. resp (k + i) \<in> set acceptable_codes \<Longrightarrow>
   send_chunks resp (length xs) n k (drop (k * CHUNK_SIZE) xs)
       (int (min (k * CHUNK_SIZE) (length xs)))
     = (True, map (chunk_request xs) [k ..< k + n])"
proof (induction n arbitrary: k)
  case 0
  show ?case by simp
next
  case (Suc n)
  have here: "resp k \<in> set acceptable_codes"
    using Suc.prems by (metis add.right_neutral zero_less_Suc)
  have rest: "\<forall>i < n. resp (Suc k + i) \<in> set acceptable_codes"
    using Suc.prems by (metis Suc_less_eq add_Suc_shift)
  have ih: "send_chunks resp (length xs) n (Suc k) (drop (Suc k * CHUNK_SIZE) xs)
              (int (min (Suc k * CHUNK_SIZE) (length xs)))
            = (True, map (chunk_request xs) [Suc k ..< Suc k + n])"
    using Suc.IH [OF rest] .
  have upt: "[k ..< k + Suc n] = k # [Suc k ..< Suc k + n]"
    by (simp add: upt_rec)
  show ?case
    unfolding send_chunks.simps Let_def drop_chunks start_advance upt
    using here ih by (simp add: chunk_request_def Let_def)
qed

lemma send_chunks_rejected:
  "j < n \<Longrightarrow> resp (k + j) \<notin> set acceptable_codes \<Longrightarrow>
   \<forall>i < j. resp (k + i) \<in> set acceptable_codes \<Longrightarrow>
   send_chunks resp (length xs) n k (drop (k * CHUNK_SIZE) xs)
       (int (min (k * CHUNK_SIZE) (length xs)))
     = (False, map (chunk_request xs) [k ..< k + Suc j])"
proof (induction n arbitrary: k j)
  case 0
  then show ?case by simp
next
  case (Suc n)
  show ?case
  proof (cases j)
    case 0
    then have "resp k \<notin> set acceptable_codes"
      using Suc.prems(2) by simp
    then show ?thesis
      unfolding send_chunks.simps Let_def using 0
      by (simp add: chunk_request_def Let_def)
  next
    case (Suc j')
    have here: "resp k \<in> set acceptable_codes"
      using Suc.prems(3) Suc by (metis add.right_neutral zero_less_Suc)
    have j'n: "j' < n"
      using Suc.prems(1) Suc by simp
    have bad: "resp (Suc k + j') \<notin> set acceptable_codes"
      using Suc.prems(2) Suc by simp
    have rest: "\<forall>i < j'. resp (Suc k + i) \<in> set acceptable_codes"
      using Suc.prems(3) Suc by (metis Suc_less_eq add_Suc_shift)
    have ih: "send_chunks resp (length xs) n (Suc k) (drop (Suc k * CHUNK_SIZE) xs)
                (int (min (Suc k * CHUNK_SIZE) (length xs)))
              = (False, map (chunk_request xs) [Suc k ..< Suc k + Suc j'])"
      using Suc.IH [OF j'n bad rest] .
    have upt: "[k ..< k + Suc j] = k # [Suc k ..< Suc k + Suc j']"
      using Suc by (simp add: upt_rec)
    show ?thesis
      unfolding send_chunks.simps Let_def drop_chunks start_advance upt
      using here ih by (simp add: chunk_request_def Let_def)
  qed
qed

lemma manage_file_chunks_accepted:
  "\<forall>i \<le> length xs div CHUNK_SIZE. resp i \<in> set acceptable_codes \<Longrightarrow>
   manage_file_chunks resp xs
     = (True, map (chunk_request xs) [0 ..< length xs div CHUNK_SIZE + 1])"
  using send_chunks_accepted [of "length xs div CHUNK_SIZE + 1" resp 0 xs]
  by (simp add: manage_file_chunks_def Let_def)

lemma manage_file_chunks_rejected:
  "j \<le> length xs div CHUNK_SIZE \<Longrightarrow> resp j \<notin> set acceptable_codes \<Longrightarrow>
   \<forall>i < j. resp i \<in> set acceptable_codes \<Longrightarrow>
   manage_file_chunks resp xs = (False, map (chunk_request xs) [0 ..< Suc j])"
  using send_chunks_rejected [of j "length xs div CHUNK_SIZE + 1" resp 0 xs]
  by (simp add: manage_file_chunks_def Let_def)





lemma last_map_upt: "last (map f [0 ..< Suc n]) = f n"
  by simp

text \<open>Whatever the remote answers, the requests issued are an initial segment of the
  closed-form sequence; the transfer succeeds exactly when the segment is the whole of it.\<close>

lemma manage_file_chunks_shape:
  obtains m where "0 < m" and "m \<le> length xs div CHUNK_SIZE + 1"
    and "snd (manage_file_chunks resp xs) = map (chunk_request xs) [0 ..< m]"
    and "fst (manage_file_chunks resp xs) \<longrightarrow> m = length xs div CHUNK_SIZE + 1"
proof (cases "\<forall>i \<le> length xs div CHUNK_SIZE. resp i \<in> set acceptable_codes")
  case True
  have "snd (manage_file_chunks resp xs)
          = map (chunk_request xs) [0 ..< length xs div CHUNK_SIZE + 1]"
    using manage_file_chunks_accepted [OF True] by simp
  then show ?thesis
    using that [of "length xs div CHUNK_SIZE + 1"] by simp
next
  case False
  define j where "j = (LEAST i. resp i \<notin> set acceptable_codes)"
  obtain i0 where i0: "i0 \<le> length xs div CHUNK_SIZE" "resp i0 \<notin> set acceptable_codes"
    using False by blast
  have bad: "resp j \<notin> set acceptable_codes"
    unfolding j_def using i0(2) by (rule LeastI)
  have le: "j \<le> i0"
    unfolding j_def using i0(2) by (rule Least_le)
  have before: "\<forall>i < j. resp i \<in> set acceptable_codes"
    unfolding j_def using not_less_Least by blast
  have jq: "j \<le> length xs div CHUNK_SIZE"
    using le i0(1) by simp
  have eq: "manage_file_chunks resp xs = (False, map (chunk_request xs) [0 ..< Suc j])"
    using manage_file_chunks_rejected [OF jq bad before] .
  show ?thesis
    using that [of "Suc j"] jq unfolding eq by simp
qed



text \<open>
  Claim C4. If the script holds a status outside \<open>{200, 201, 202}\<close> for one of the
  transfer's PUT requests, the transfer returns \<open>False\<close>, the last request issued is one
  that was rejected, and every request before it was accepted: nothing is sent after the
  first rejection.
\<close>

theorem rejection_aborts:
  assumes "j \<le> length xs div CHUNK_SIZE" and "resp j \<notin> set acceptable_codes"
  shows "fst (manage_file_chunks resp xs) = False
       \<and> length (snd (manage_file_chunks resp xs)) \<le> Suc j
       \<and> resp (length (snd (manage_file_chunks resp xs)) - 1) \<notin> set acceptable_codes
       \<and> (\<forall>i < length (snd (manage_file_chunks resp xs)) - 1. resp i \<in> set acceptable_codes)"
proof -
  define k where "k = (LEAST i. resp i \<notin> set acceptable_codes)"
  have bad: "resp k \<notin> set acceptable_codes"
    unfolding k_def using assms(2) by (rule LeastI)
  have le: "k \<le> j"
    unfolding k_def using assms(2) by (rule Least_le)
  have before: "\<forall>i < k. resp i \<in> set acceptable_codes"
    unfolding k_def using not_less_Least by blast
  have kq: "k \<le> length xs div CHUNK_SIZE"
    using le assms(1) by simp
  have eq: "manage_file_chunks resp xs = (False, map (chunk_request xs) [0 ..< Suc k])"
    using manage_file_chunks_rejected [OF kq bad before] .
  show ?thesis
    unfolding eq using bad le before by simp
qed

theorem rejection_aborts_witness:
  "fst (manage_file_chunks (\<lambda>i. if i = 1 then 503 else 200) (replicate 25000000 7)) = False
   \<and> length (snd (manage_file_chunks (\<lambda>i. if i = 1 then 503 else 200) (replicate 25000000 7))) = 2"
proof -
  let ?resp = "\<lambda>i::nat. if i = 1 then 503 else (200::int)"
  let ?xs = "replicate 25000000 (7::byte)"
  have a: "1 \<le> length ?xs div CHUNK_SIZE"
    by (simp add: CHUNK_SIZE_def)
  have b: "?resp 1 \<notin> set acceptable_codes"
    by (simp add: acceptable_codes_def)
  have c: "?resp 0 \<in> set acceptable_codes"
    by (simp add: acceptable_codes_def)
  have d: "length (snd (manage_file_chunks ?resp ?xs)) \<noteq> 1"
    using rejection_aborts [of 1 ?xs ?resp, OF a b] c by auto
  have e: "length (snd (manage_file_chunks ?resp ?xs)) \<noteq> 0"
    using rejection_aborts [of 1 ?xs ?resp, OF a b] c by auto
  show ?thesis
    using rejection_aborts [of 1 ?xs ?resp, OF a b] d e
    by (auto simp: le_Suc_eq numeral_2_eq_2)
qed


lemma chunk_request_end:
  "range_end (chunk_request xs i) + 1 = int (min (Suc i * CHUNK_SIZE) (length xs))"
  using start_advance [of i xs] by (simp add: chunk_request_def Let_def)

lemma chunk_request_start:
  "range_start (chunk_request xs i) = int (min (i * CHUNK_SIZE) (length xs))"
  by (simp add: chunk_request_def Let_def)

lemma chunk_request_total:
  "range_total (chunk_request xs i) = int (length xs)"
  by (simp add: chunk_request_def Let_def)

lemma full_chunks_fit: "i \<le> length xs div CHUNK_SIZE \<Longrightarrow> i * CHUNK_SIZE \<le> length xs"
proof -
  assume "i \<le> length xs div CHUNK_SIZE"
  then have "i * CHUNK_SIZE \<le> (length xs div CHUNK_SIZE) * CHUNK_SIZE"
    by (rule mult_le_mono1)
  also have "\<dots> \<le> length xs"
    by simp
  finally show ?thesis .
qed

lemma past_last_chunk: "length xs < Suc (length xs div CHUNK_SIZE) * CHUNK_SIZE"
  using CHUNK_SIZE_pos dividend_less_div_times [of CHUNK_SIZE "length xs"]
  by (simp add: mult.commute)

text \<open>
  Claim C2. Whatever the remote answers, the byte ranges sent start at offset 0, each
  range ends one byte before the next one starts, the start offsets increase strictly, and
  every range names the file's length as the total; when the transfer succeeds the last
  range ends at byte \<open>L - 1\<close>. A file of 25,000,000 bytes is sent as the three ranges
  \<open>[0, 10485759]\<close>, \<open>[10485760, 20971519]\<close>, \<open>[20971520, 24999999]\<close>.
\<close>

theorem ranges_contiguous:
  assumes "manage_file_chunks resp xs = (ok, puts)"
  shows "puts \<noteq> [] \<and> range_start (hd puts) = 0
       \<and> (\<forall>r \<in> set puts. range_total r = int (length xs))
       \<and> (\<forall>i. Suc i < length puts \<longrightarrow>
              range_end (puts ! i) + 1 = range_start (puts ! Suc i)
              \<and> range_start (puts ! i) < range_start (puts ! Suc i))
       \<and> (ok \<longrightarrow> range_end (last puts) + 1 = int (length xs))
       \<and> (ok \<and> length xs = 25000000 \<longrightarrow>
              map byte_range puts
                = [(0, 10485759), (10485760, 20971519), (20971520, 24999999)])"
proof -
  obtain m where m: "0 < m" "m \<le> length xs div CHUNK_SIZE + 1"
      "snd (manage_file_chunks resp xs) = map (chunk_request xs) [0 ..< m]"
      "fst (manage_file_chunks resp xs) \<longrightarrow> m = length xs div CHUNK_SIZE + 1"
    by (rule manage_file_chunks_shape [of xs resp])
  have puts: "puts = map (chunk_request xs) [0 ..< m]"
    using m(3) assms by simp
  have okm: "ok \<longrightarrow> m = length xs div CHUNK_SIZE + 1"
    using m(4) assms by simp
  have len: "length puts = m"
    by (simp add: puts)
  have ne: "puts \<noteq> []"
    using m(1) len by auto
  have hd0: "range_start (hd puts) = 0"
  proof -
    have "[0 ..< m] = 0 # [Suc 0 ..< m]"
      using m(1) by (rule upt_conv_Cons)
    then have "hd puts = chunk_request xs 0"
      unfolding puts by (simp only: list.map list.sel)
    then show ?thesis
      by (simp add: chunk_request_start)
  qed
  have total: "\<forall>r \<in> set puts. range_total r = int (length xs)"
    by (auto simp: puts chunk_request_total)
  have step: "\<forall>i. Suc i < length puts \<longrightarrow>
              range_end (puts ! i) + 1 = range_start (puts ! Suc i)
              \<and> range_start (puts ! i) < range_start (puts ! Suc i)"
  proof (intro allI impI)
    fix i assume i: "Suc i < length puts"
    then have im: "Suc i < m" and i'm: "i < m"
      using len by simp_all
    have a: "puts ! i = chunk_request xs i"
      using i'm by (simp add: puts)
    have b: "puts ! Suc i = chunk_request xs (Suc i)"
      using im by (simp add: puts)
    have "Suc i \<le> length xs div CHUNK_SIZE"
      using im m(2) by simp
    then have fit: "Suc i * CHUNK_SIZE \<le> length xs"
      by (rule full_chunks_fit)
    have lt: "i * CHUNK_SIZE < Suc i * CHUNK_SIZE"
      using CHUNK_SIZE_pos by simp
    have "min (i * CHUNK_SIZE) (length xs) < min (Suc i * CHUNK_SIZE) (length xs)"
      using fit lt by (simp add: min_def)
    then show "range_end (puts ! i) + 1 = range_start (puts ! Suc i)
              \<and> range_start (puts ! i) < range_start (puts ! Suc i)"
      unfolding a b chunk_request_end chunk_request_start by simp
  qed
  have final: "ok \<longrightarrow> range_end (last puts) + 1 = int (length xs)"
  proof
    assume ok
    then have "m = Suc (length xs div CHUNK_SIZE)"
      using okm by simp
    then have "last puts = chunk_request xs (length xs div CHUNK_SIZE)"
      unfolding puts by (simp only: last_map_upt)
    then show "range_end (last puts) + 1 = int (length xs)"
      using past_last_chunk [of xs] by (simp add: chunk_request_end min_def)
  qed
  have example: "ok \<and> length xs = 25000000 \<longrightarrow>
              map byte_range puts
                = [(0, 10485759), (10485760, 20971519), (20971520, 24999999)]"
  proof
    assume h: "ok \<and> length xs = 25000000"
    then have "m = 3"
      using okm by (simp add: CHUNK_SIZE_def)
    moreover have "[0 ..< 3] = [0, 1, 2::nat]"
      by (simp add: upt_conv_Cons)
    ultimately have "puts = [chunk_request xs 0, chunk_request xs 1, chunk_request xs 2]"
      unfolding puts by simp
    then show "map byte_range puts
                = [(0, 10485759), (10485760, 20971519), (20971520, 24999999)]"
      using h by (simp add: byte_range_def chunk_request_def CHUNK_SIZE_def)
  qed
  show ?thesis
    by (intro conjI ne hd0 total step final example)
qed

theorem ranges_contiguous_witness:
  "map byte_range (snd (manage_file_chunks (\<lambda>_. 200) (replicate 25000000 7)))
     = [(0, 10485759), (10485760, 20971519), (20971520, 24999999)]"
proof -
  let ?r = "manage_file_chunks (\<lambda>_. 200) (replicate 25000000 7)"
  have ok: "fst ?r"
    using manage_file_chunks_accepted [of "replicate 25000000 7" "\<lambda>_. 200"]
    by (simp add: acceptable_codes_def)
  have "?r = (fst ?r, snd ?r)"
    by simp
  from ranges_contiguous [OF this] ok show ?thesis
    by simp
qed


section \<open>Facts about the controller\<close>

lemma validate_props_nonempty: "[] \<notin> set props \<Longrightarrow> validate_props props"
  by (induction props) auto

lemma dir_self_nonempty: "[] \<notin> set dir_self"
  by (simp add: dir_self_def)

lemma validate_info_True: "validate_info self"
  unfolding validate_info_def using dir_self_nonempty by (rule validate_props_nonempty)

text \<open>
  Claim C6. The claim asks that a configuration with a missing or empty required setting
  fails validation, so that nothing is sent. The program's check reads the names of the
  controller's attributes, never their values, so it succeeds for every controller: with
  the secret missing from the environment, validation passes and the run goes on to the
  three MSAL calls, stopping only because no token came back.
\<close>

theorem validation_never_fails:
  "validate_info self
   \<and> \<not> required_settings_present (init_controller ex_env)
   \<and> validate_info (init_controller ex_env)
   \<and> manage_spo ex_env ex_world tarball tarball_name fuel
       = ([MsalClient ''app1'' ''https://login.microsoftonline.com/t1'' [],
           AcquireTokenSilent [''https://graph.microsoft.com/.default''],
           AcquireTokenForClient [''https://graph.microsoft.com/.default'']], NoToken)"
  apply (intro conjI validate_info_True)
   apply (simp add: required_settings_present_def init_controller_def environ_get_def ex_env_def)
  apply (simp add: manage_spo_def validate_info_True Let_def connect_graph_def initialize_client_def
      store_new_token_def check_token_def init_controller_def environ_get_def ex_env_def ex_world_def)
  done

subsection \<open>Token lookup\<close>

lemma bearer_present:
  "map_of (graph_token self) ''access_token'' = Some t \<Longrightarrow> bearer self = Inr (''Bearer '' @ t)"
  by (simp add: bearer_def)

text \<open>
  Claim C9. Once \<open>check_token\<close> holds of a controller, the folder query, the creation of
  the upload session and the deletion of an item, run on that controller (none of them
  assigns \<open>graph_token\<close>), each send one request whose \<open>Authorization\<close> header is
  \<open>Bearer\<close> followed by the value stored under \<open>access_token\<close>, and none of them raises
  \<open>KeyError\<close>.
\<close>

theorem token_lookup_cannot_fail:
  assumes "check_token self"
  shows "\<exists>t. map_of (graph_token self) ''access_token'' = Some t
       \<and> fst (query_graph self ep resp)
           = [HttpGet (if ep = [] then endpoint self else ep) (''Bearer '' @ t)]
       \<and> snd (query_graph self ep resp) \<noteq> Inl KeyError
       \<and> fst (get_upload_url self dir_id file_name resp)
           = [HttpPost (split_head ''/root:'' (endpoint self) @ ''/items/'' @ dir_id @ '':/''
                          @ file_name @ '':/createUploadSession'') (''Bearer '' @ t)]
       \<and> snd (get_upload_url self dir_id file_name resp) \<noteq> Inl KeyError
       \<and> delete_file self iid status
           = ([HttpDelete (split_head ''/root:'' (endpoint self) @ ''/items/'' @ iid)
                 (''Bearer '' @ t)], Inr (status = 204))"
proof -
  obtain t where t: "map_of (graph_token self) ''access_token'' = Some t"
    using assms by (auto simp: check_token_def)
  have b: "bearer self = Inr (''Bearer '' @ t)"
    using t by (rule bearer_present)
  have q1: "fst (query_graph self ep resp)
           = [HttpGet (if ep = [] then endpoint self else ep) (''Bearer '' @ t)]"
    by (simp add: query_graph_def b Let_def)
  have q2: "snd (query_graph self ep resp) \<noteq> Inl KeyError"
    by (simp add: query_graph_def b Let_def split: option.splits)
  have u1: "fst (get_upload_url self dir_id file_name resp)
           = [HttpPost (split_head ''/root:'' (endpoint self) @ ''/items/'' @ dir_id @ '':/''
                          @ file_name @ '':/createUploadSession'') (''Bearer '' @ t)]"
    by (simp add: get_upload_url_def b Let_def)
  have u2: "snd (get_upload_url self dir_id file_name resp) \<noteq> Inl KeyError"
    by (simp add: get_upload_url_def b Let_def split: option.splits)
  have d: "delete_file self iid status
           = ([HttpDelete (split_head ''/root:'' (endpoint self) @ ''/items/'' @ iid)
                 (''Bearer '' @ t)], Inr (status = 204))"
    by (simp add: delete_file_def b Let_def)
  show ?thesis
    using t q1 q2 u1 u2 d by (intro exI [of _ t] conjI)
qed

theorem token_lookup_cannot_fail_witness:
  "delete_file ex_spo ''item7'' 204
     = ([HttpDelete ''https://graph.microsoft.com/v1.0/drives/d1/items/item7'' ''Bearer tok1''],
        Inr True)
   \<and> fst (query_graph ex_spo [] \<lparr>status_code = 404, resp_text = ''gone'', resp_json = None\<rparr>)
       = [HttpGet ''https://graph.microsoft.com/v1.0/drives/d1/root:/archive:/children''
            ''Bearer tok1'']"
proof -
  have c: "check_token ex_spo"
    by (simp add: check_token_def ex_spo_def)
  have t: "map_of (graph_token ex_spo) ''access_token'' = Some ''tok1''"
    by (simp add: ex_spo_def)
  have h: "split_head ''/root:'' (endpoint ex_spo) = ''https://graph.microsoft.com/v1.0/drives/d1''"
    by (simp add: ex_spo_def)
  have e: "endpoint ex_spo = ''https://graph.microsoft.com/v1.0/drives/d1/root:/archive:/children''"
    by (simp add: ex_spo_def)
  from token_lookup_cannot_fail [OF c, of "[]" "\<lparr>status_code = 404, resp_text = ''gone'', resp_json = None\<rparr>" _ _ "''item7''" 204]
  show ?thesis
    unfolding t h e by simp
qed

subsection \<open>Upload session\<close>

text \<open>
  Claim C7. The claim asks that a status outside \<open>{200, 201}\<close> makes the creation of the
  upload session return the empty string, so that no chunk is sent. The program logs the
  status and then returns the \<open>uploadUrl\<close> of the body whatever the status was: an answer
  with status 500 that carries an \<open>uploadUrl\<close> starts the chunk transfer, and an answer
  with status 503 whose body is not JSON raises instead of returning the empty string.
\<close>

theorem session_status_not_checked:
  "get_upload_url ex_spo ''dir9'' ''a.zip'' ex_rejected_session
     = ([HttpPost ''https://graph.microsoft.com/v1.0/drives/d1/items/dir9:/a.zip:/createUploadSession''
           ''Bearer tok1''], Inr ''https://up.example/s1'')
   \<and> upload_file ex_spo ''dir9'' [1, 2, 3] ''a.zip'' ex_rejected_session (\<lambda>_. 202)
     = ([HttpPost ''https://graph.microsoft.com/v1.0/drives/d1/items/dir9:/a.zip:/createUploadSession''
           ''Bearer tok1'',
         HttpPut ''https://up.example/s1''
           \<lparr>content_length = 3, range_start = 0, range_end = 2, range_total = 3,
              body = [1, 2, 3]\<rparr>], Inr True)
   \<and> snd (get_upload_url ex_spo ''dir9'' ''a.zip'' ex_gateway_error) = Inl JSONDecodeError
   \<and> snd (upload_file ex_spo ''dir9'' [1, 2, 3] ''a.zip'' ex_gateway_error (\<lambda>_. 202))
     = Inl JSONDecodeError"
  by (simp add: get_upload_url_def upload_file_def ex_spo_def ex_rejected_session_def
      ex_gateway_error_def bearer_def get_str_def manage_file_chunks_def CHUNK_SIZE_def
      acceptable_codes_def Let_def)

subsection \<open>Directory lookup\<close>




section \<open>Facts about the retention loop\<close>













lemma delete_file_cases:
  obtains "delete_file self oid status = ([], Inl KeyError)"
  | auth where "bearer self = Inr auth"
      "delete_file self oid status
         = ([HttpDelete (split_head ''/root:'' (endpoint self) @ ''/items/'' @ oid) auth],
            Inr (status = 204))"
  by (cases "bearer self") (auto simp: delete_file_def bearer_def Let_def split: option.splits)



lemma cleanup_loop_numeral:
  "cleanup_loop self strptime right_now del_status (numeral v) st =
     (if \<not> length (dir_content st) > MAX_BACKUPS then (Exited, st)
      else (case next_year right_now of
              Inl e \<Rightarrow> (Raised e, st)
            | Inr sentinel \<Rightarrow>
                (case scan_oldest strptime (dir_content st)
                        (sentinel, oldest_filename st, oldest_id st) of
                   (oldest_timestamp, name, oid) \<Rightarrow>
                     (case delete_file self oid (del_status (length (calls st))) of
                        (ev, deleted) \<Rightarrow>
                          (let st1 = st\<lparr>oldest_filename := name, oldest_id := oid,
                                          calls := calls st @ [oid], sent := sent st @ ev\<rparr>
                           in case deleted of
                                Inl e \<Rightarrow> (Raised e, st1)
                              | Inr False \<Rightarrow> (Exited, st1)
                              | Inr True \<Rightarrow>
                                  (case find_match oid (dir_content st1) of
                                     Inl e \<Rightarrow> (Raised e, st1)
                                   | Inr None \<Rightarrow>
                                       cleanup_loop self strptime right_now del_status
                                         (pred_numeral v) st1
                                   | Inr (Some match) \<Rightarrow>
                                       cleanup_loop self strptime right_now del_status
                                         (pred_numeral v)
                                         (st1\<lparr>dir_content :=
                                                 remove1 match (dir_content st1)\<rparr>)))))))"
  by (simp only: numeral_eq_Suc cleanup_loop.simps)


lemma bearer_ex_spo: "bearer ex_spo = Inr ''Bearer tok1''"
  by (simp add: bearer_def ex_spo_def)

lemma query_listing:
  "bearer self = Inr auth \<Longrightarrow>
   query_graph self (endpoint self) (ex_listing files)
     = ([HttpGet (endpoint self) auth],
        Inr \<lparr>j_error = None, j_id = None, j_uploadUrl = None, j_value = Some files\<rparr>)"
  by (simp add: query_graph_def ex_listing_def Let_def)













text \<open>On 29 February the sentinel date does not exist: the first pass of the loop raises
  \<open>ValueError\<close> before anything is deleted.\<close>

lemma leap_day_raises:
  "next_year (2028, 2, 29, 9, 0, 0) = Inl ValueError
   \<and> fst (cleanup_files ex_spo ex_strptime (2028, 2, 29, 9, 0, 0) (ex_listing ex_six)
            (\<lambda>_. 204) 5) = Raised ValueError
   \<and> calls (snd (cleanup_files ex_spo ex_strptime (2028, 2, 29, 9, 0, 0) (ex_listing ex_six)
                    (\<lambda>_. 204) 5)) = []"
  by (simp add: cleanup_files_def query_listing [OF bearer_ex_spo] cleanup_loop_numeral
      next_year_def datetime_ctor_def days_in_month_def is_leap_def ex_six_def MAX_BACKUPS_def)



















end
